theory Spec2Isabelle
  imports Main
begin

section \<open>Python numbers: unbounded integers and binary64 floats\<close>

text \<open>
  The amounts and balances of \<^verbatim>\<open>kin/account.py\<close> are Python numbers. An \<^verbatim>\<open>int\<close> is
  unbounded; a \<^verbatim>\<open>float\<close> is an IEEE 754 binary64 value. A finite float is kept as a pair
  of integers: \<open>Finite m e\<close> stands for the number \<open>m * 2 ^ e\<close> (the sign of a zero is
  not kept: no comparison of the source tells the two zeros apart). Every operation
  computes the exact result on integers and rounds it once to 53 significant bits,
  ties to even, as the hardware does.
\<close>

datatype pyfloat = Finite int int | PInf | NInf | NaN

datatype pynum = PyInt int | PyFloat pyfloat

datatype error =
    ValueError string
  | TypeError string
  | KeyError string
  | OverflowError string
  | AccountNotActivatedError
  | AccountNotFoundError
  | AccountExistsError
  | LowBalanceError string
  | OtherError string

function bit_length :: "int \<Rightarrow> nat" where
  \<comment> \<open>the number of binary digits of a positive integer\<close>
  "bit_length n = (if n \<le> 0 then 0 else Suc (bit_length (n div 2)))"
  by pat_completeness auto
termination
  by (relation "measure nat") auto

declare bit_length.simps [simp del]

definition rne_div :: "int \<Rightarrow> int \<Rightarrow> int" where
  \<comment> \<open>\<open>n / d\<close> rounded to the nearest integer, a tie to the even one (\<open>0 \<le> n\<close>, \<open>0 < d\<close>)\<close>
  "rne_div n d =
     (let q = n div d; r = n mod d
      in if 2 * r < d then q
         else if d < 2 * r then q + 1
         else if even q then q else q + 1)"

definition floor_log2 :: "int \<Rightarrow> int \<Rightarrow> int" where
  \<comment> \<open>the \<open>e\<close> with \<open>2 ^ e \<le> p / q < 2 ^ (e + 1)\<close> (\<open>0 < p\<close>, \<open>0 < q\<close>)\<close>
  "floor_log2 p q =
     (let s = int (bit_length p) - int (bit_length q)
      in if (if 0 \<le> s then q * 2 ^ nat s \<le> p else q \<le> p * 2 ^ nat (- s)) then s else s - 1)"

definition round_ratio :: "int \<Rightarrow> int \<Rightarrow> (int \<times> int) option" where
  \<comment> \<open>\<open>p / q\<close> (\<open>0 \<le> p\<close>, \<open>0 < q\<close>) rounded to binary64: \<open>Some (n, k)\<close> is \<open>n * 2 ^ k\<close>,
      \<open>None\<close> an overflow\<close>
  "round_ratio p q =
     (if p = 0 then Some (0, 0)
      else
        let e = floor_log2 p q;
            k = max (e - 52) (- 1074);
            n = (if 0 \<le> k then rne_div p (q * 2 ^ nat k) else rne_div (p * 2 ^ nat (- k)) q)
        in if 971 < k \<or> (k = 971 \<and> 2 ^ 53 \<le> n) then None else Some (n, k))"

definition fl_ratio :: "int \<Rightarrow> int \<Rightarrow> pyfloat" where
  \<comment> \<open>the float nearest to \<open>p / q\<close> (\<open>0 < q\<close>): how a decimal literal is read\<close>
  "fl_ratio p q =
     (case round_ratio \<bar>p\<bar> q of
        None \<Rightarrow> (if p < 0 then NInf else PInf)
      | Some (n, k) \<Rightarrow> Finite (if p < 0 then - n else n) k)"

definition fl_round :: "int \<Rightarrow> int \<Rightarrow> pyfloat" where
  \<comment> \<open>the float nearest to \<open>m * 2 ^ e\<close>\<close>
  "fl_round m e = (if 0 \<le> e then fl_ratio (m * 2 ^ nat e) 1 else fl_ratio m (2 ^ nat (- e)))"

fun fl_sign :: "pyfloat \<Rightarrow> int" where
  "fl_sign (Finite m e) = sgn m"
| "fl_sign PInf = 1"
| "fl_sign NInf = - 1"
| "fl_sign NaN = 0"

fun fl_mul :: "pyfloat \<Rightarrow> pyfloat \<Rightarrow> pyfloat" where
  "fl_mul (Finite m1 e1) (Finite m2 e2) = fl_round (m1 * m2) (e1 + e2)"
| "fl_mul NaN y = NaN"
| "fl_mul x NaN = NaN"
| "fl_mul x y =
     (let s = fl_sign x * fl_sign y
      in if s = 0 then NaN else if 0 < s then PInf else NInf)"

fun fl_add :: "pyfloat \<Rightarrow> pyfloat \<Rightarrow> pyfloat" where
  "fl_add (Finite m1 e1) (Finite m2 e2) =
     (let e = min e1 e2 in fl_round (m1 * 2 ^ nat (e1 - e) + m2 * 2 ^ nat (e2 - e)) e)"
| "fl_add NaN y = NaN"
| "fl_add x NaN = NaN"
| "fl_add PInf NInf = NaN"
| "fl_add NInf PInf = NaN"
| "fl_add PInf y = PInf"
| "fl_add NInf y = NInf"
| "fl_add x PInf = PInf"
| "fl_add x NInf = NInf"

text \<open>
  Comparisons are exact, also between an \<^verbatim>\<open>int\<close> and a \<^verbatim>\<open>float\<close> (Python converts
  neither operand); every comparison with a NaN is false, so \<^verbatim>\<open>!=\<close> with a NaN is true.
\<close>

fun fl_lt :: "pyfloat \<Rightarrow> pyfloat \<Rightarrow> bool" where
  "fl_lt (Finite m1 e1) (Finite m2 e2) =
     (let e = min e1 e2 in m1 * 2 ^ nat (e1 - e) < m2 * 2 ^ nat (e2 - e))"
| "fl_lt NaN y = False"
| "fl_lt x NaN = False"
| "fl_lt x NInf = False"
| "fl_lt PInf y = False"
| "fl_lt x y = True"

fun fl_eq :: "pyfloat \<Rightarrow> pyfloat \<Rightarrow> bool" where
  "fl_eq (Finite m1 e1) (Finite m2 e2) =
     (let e = min e1 e2 in m1 * 2 ^ nat (e1 - e) = m2 * 2 ^ nat (e2 - e))"
| "fl_eq PInf PInf = True"
| "fl_eq NInf NInf = True"
| "fl_eq x y = False"

fun as_float :: "pynum \<Rightarrow> pyfloat" where
  \<comment> \<open>the exact value of a number, for comparing\<close>
  "as_float (PyInt n) = Finite n 0"
| "as_float (PyFloat x) = x"

definition py_lt :: "pynum \<Rightarrow> pynum \<Rightarrow> bool" where
  "py_lt a b = fl_lt (as_float a) (as_float b)"

definition py_eq :: "pynum \<Rightarrow> pynum \<Rightarrow> bool" where
  "py_eq a b = fl_eq (as_float a) (as_float b)"

definition py_le :: "pynum \<Rightarrow> pynum \<Rightarrow> bool" where
  "py_le a b = (py_lt a b \<or> py_eq a b)"

definition py_gt :: "pynum \<Rightarrow> pynum \<Rightarrow> bool" where
  "py_gt a b = py_lt b a"

definition py_ne :: "pynum \<Rightarrow> pynum \<Rightarrow> bool" where
  "py_ne a b = (\<not> py_eq a b)"

definition float_of_int :: "int \<Rightarrow> error + pyfloat" where
  \<comment> \<open>\<^verbatim>\<open>float(n)\<close>: correctly rounded; OverflowError beyond the range of a float\<close>
  "float_of_int n =
     (case fl_round n 0 of
        Finite m e \<Rightarrow> Inr (Finite m e)
      | _ \<Rightarrow> Inl (OverflowError ''int too large to convert to float''))"

fun py_mul :: "pynum \<Rightarrow> pynum \<Rightarrow> error + pynum" where
  "py_mul (PyInt a) (PyInt b) = Inr (PyInt (a * b))"
| "py_mul (PyInt a) (PyFloat y) =
     (case float_of_int a of Inl err \<Rightarrow> Inl err | Inr x \<Rightarrow> Inr (PyFloat (fl_mul x y)))"
| "py_mul (PyFloat x) (PyInt b) =
     (case float_of_int b of Inl err \<Rightarrow> Inl err | Inr y \<Rightarrow> Inr (PyFloat (fl_mul x y)))"
| "py_mul (PyFloat x) (PyFloat y) = Inr (PyFloat (fl_mul x y))"

fun py_add :: "pynum \<Rightarrow> pynum \<Rightarrow> error + pynum" where
  "py_add (PyInt a) (PyInt b) = Inr (PyInt (a + b))"
| "py_add (PyInt a) (PyFloat y) =
     (case float_of_int a of Inl err \<Rightarrow> Inl err | Inr x \<Rightarrow> Inr (PyFloat (fl_add x y)))"
| "py_add (PyFloat x) (PyInt b) =
     (case float_of_int b of Inl err \<Rightarrow> Inl err | Inr y \<Rightarrow> Inr (PyFloat (fl_add x y)))"
| "py_add (PyFloat x) (PyFloat y) = Inr (PyFloat (fl_add x y))"

text \<open>
  \<^verbatim>\<open>x % 1\<close>. For a float it is C's \<^verbatim>\<open>fmod(x, 1.0)\<close>, which is exact and has the sign
  of \<open>x\<close>, plus \<open>1.0\<close> when that remainder is negative; of an infinity or a NaN it is
  NaN. For an \<^verbatim>\<open>int\<close> it is \<open>0\<close>.
\<close>

fun fl_mod1 :: "pyfloat \<Rightarrow> pyfloat" where
  "fl_mod1 (Finite m e) =
     (if 0 \<le> e then Finite 0 0
      else
        let r = \<bar>m\<bar> mod 2 ^ nat (- e)
        in if r = 0 then Finite 0 0
           else if m < 0 then fl_add (Finite (- r) e) (Finite 1 0)
           else Finite r e)"
| "fl_mod1 x = NaN"

fun py_mod1 :: "pynum \<Rightarrow> pynum" where
  "py_mod1 (PyInt n) = PyInt 0"
| "py_mod1 (PyFloat x) = PyFloat (fl_mod1 x)"

section \<open>Python text of an integer\<close>

text \<open>\<^verbatim>\<open>str(n)\<close> of an \<^verbatim>\<open>int\<close>: its decimal digits, after a minus sign when negative.\<close>

definition digit_char :: "nat \<Rightarrow> char" where
  "digit_char d = ''0123456789'' ! d"

function str_nat :: "nat \<Rightarrow> string" where
  "str_nat n = (if n < 10 then [digit_char n] else str_nat (n div 10) @ [digit_char (n mod 10)])"
  by pat_completeness auto
termination
  by (relation "measure id") auto

declare str_nat.simps [simp del]

definition str :: "int \<Rightarrow> string" where
  "str i = (if i < 0 then CHR ''-'' # str_nat (nat (- i)) else str_nat (nat i))"

text \<open>\<^verbatim>\<open>range(n)\<close>: the integers from \<open>0\<close> up to \<open>n - 1\<close>, none when \<open>n \<le> 0\<close>.\<close>

definition py_range :: "int \<Rightarrow> int list" where
  "py_range n = [0..n - 1]"

section \<open>The collaborators of \<^verbatim>\<open>kin/account.py\<close>\<close>

text \<open>
  \<^verbatim>\<open>kin/account.py\<close> imports the key functions (\<^verbatim>\<open>blockchain/utils.py\<close>,
  \<^verbatim>\<open>blockchain/keypair.py\<close>), the constants of \<^verbatim>\<open>config.py\<close>, the error translation
  of \<^verbatim>\<open>errors.py\<close> and the channel manager (\<^verbatim>\<open>blockchain/channel_manager.py\<close>); a
  \<^verbatim>\<open>KinAccount\<close> is built over a client that queries the ledger. These modules are
  not among the files verified here, so each is a parameter of the model: the record
  \<open>sdk\<close> holds the imported functions and constants (\<open>Keypair\<close> is the constructor
  \<^verbatim>\<open>Keypair(seed)\<close>, \<open>address_from_seed\<close> the static method
  \<^verbatim>\<open>Keypair.address_from_seed\<close>), the record \<open>KinClient\<close> the client's queries.

  The ledger is outside the program and changes under it. Every call to the client
  or to the channel manager is written to a \<open>history\<close>, and the answer of a call may
  depend on the history before it. A function of the model takes the history and
  returns it extended by the calls it made, in their order.
\<close>

datatype AccountStatus = NOT_CREATED | NOT_ACTIVATED | ACTIVATED

record Keypair =
  secret_seed :: string
  public_address :: string

record Environment =
  name :: string
  horizon_uri :: string

record Horizon =
  uri :: string
  pool_size :: nat
  user_agent :: string

record Asset =
  code :: string
  issuer :: "string option"

text \<open>
  A \<^verbatim>\<open>ChannelManager\<close> is known by the arguments of its constructor:
  \<^verbatim>\<open>ChannelManager(seed, channel_secret_keys, environment.name, horizon)\<close>.
\<close>

record ChannelManager =
  base_seed :: string
  channel_seeds :: "string list"
  network_name :: string
  horizon :: Horizon

text \<open>
  The first argument of \<^verbatim>\<open>send_transaction\<close> is a function of the builder,
  \<^verbatim>\<open>lambda builder: partial(builder.append_create_account_op, address, starting_balance)\<close>
  or the same with \<^verbatim>\<open>append_payment_op\<close>; it is kept as the operation and its arguments.
\<close>

datatype tx_request =
    Append_create_account_op string pynum
  | Append_payment_op string pynum string "string option"

datatype event =
    Get_account_data string
  | Get_account_balances string
  | Send_transaction ChannelManager tx_request "string option"

type_synonym history = "event list"

type_synonym balances = "string \<rightharpoonup> pynum"

record KinClient =
  get_account_data :: "history \<Rightarrow> string \<Rightarrow> AccountStatus"
  get_account_balances :: "history \<Rightarrow> string \<Rightarrow> error + balances"
  kin_asset :: Asset
  environment :: Environment

record sdk =
  is_valid_secret_key :: "string \<Rightarrow> bool"
  is_valid_address :: "string \<Rightarrow> bool"
  Keypair :: "string \<Rightarrow> Keypair"
  address_from_seed :: "string \<Rightarrow> string"
  generate_hd_seed :: "string \<Rightarrow> string \<Rightarrow> string"
  MIN_ACCOUNT_BALANCE :: pynum
  SDK_USER_AGENT :: string
  send_transaction :: "history \<Rightarrow> ChannelManager \<Rightarrow> tx_request \<Rightarrow> string option \<Rightarrow> error + (string \<rightharpoonup> string)"
  translate_error :: "error \<Rightarrow> error"

record KinAccount =
  client :: KinClient
  keypair :: Keypair
  channel_secret_keys :: "string list"
  account_horizon :: Horizon
  channel_manager :: ChannelManager

section \<open>\<^verbatim>\<open>KinAccount\<close>\<close>

definition call_get_account_data :: "KinClient \<Rightarrow> string \<Rightarrow> history \<Rightarrow> AccountStatus \<times> history" where
  \<comment> \<open>\<^verbatim>\<open>self._client.get_account_data(address)\<close>\<close>
  "call_get_account_data c address h = (get_account_data c h address, h @ [Get_account_data address])"

definition call_get_account_balances :: "KinClient \<Rightarrow> string \<Rightarrow> history \<Rightarrow> (error + balances) \<times> history" where
  \<comment> \<open>\<^verbatim>\<open>self._client.get_account_balances(address)\<close>\<close>
  "call_get_account_balances c address h =
     (get_account_balances c h address, h @ [Get_account_balances address])"

definition call_send_transaction ::
  "sdk \<Rightarrow> ChannelManager \<Rightarrow> tx_request \<Rightarrow> string option \<Rightarrow> history \<Rightarrow> (error + (string \<rightharpoonup> string)) \<times> history" where
  \<comment> \<open>\<^verbatim>\<open>self.channel_manager.send_transaction(..., memo_text=memo_text)\<close>\<close>
  "call_send_transaction lib cm req memo_text h =
     (send_transaction lib h cm req memo_text, h @ [Send_transaction cm req memo_text])"

text \<open>
  \<^verbatim>\<open>get_balances\<close> and \<^verbatim>\<open>get_data\<close> return their result, the account after the call
  and the history.
\<close>

definition get_public_address :: "KinAccount \<Rightarrow> string" where
  "get_public_address self = public_address (keypair self)"

definition get_balances :: "KinAccount \<Rightarrow> history \<Rightarrow> (error + balances) \<times> KinAccount \<times> history" where
  "get_balances self h =
     (let (r, h') = call_get_account_balances (client self) (public_address (keypair self)) h
      in (r, self, h'))"

definition get_data :: "KinAccount \<Rightarrow> history \<Rightarrow> AccountStatus \<times> KinAccount \<times> history" where
  "get_data self h =
     (let (r, h') = call_get_account_data (client self) (public_address (keypair self)) h
      in (r, self, h'))"

text \<open>
  The \<^verbatim>\<open>try\<close> block of \<^verbatim>\<open>create_account\<close> and \<^verbatim>\<open>_send_asset\<close>: the transaction is
  sent and \<^verbatim>\<open>reply['hash']\<close> returned; whatever is raised inside, a missing key
  included, is raised again translated.
\<close>

definition send_and_hash ::
  "sdk \<Rightarrow> KinAccount \<Rightarrow> tx_request \<Rightarrow> string option \<Rightarrow> history \<Rightarrow> (error + string) \<times> history" where
  "send_and_hash lib self req memo_text h =
     (case call_send_transaction lib (channel_manager self) req memo_text h of
        (Inl e, h') \<Rightarrow> (Inl (translate_error lib e), h')
      | (Inr reply, h') \<Rightarrow>
          (case reply ''hash'' of
             None \<Rightarrow> (Inl (translate_error lib (KeyError ''hash'')), h')
           | Some tx_hash \<Rightarrow> (Inr tx_hash, h')))"

definition create_account ::
  "sdk \<Rightarrow> KinAccount \<Rightarrow> string \<Rightarrow> pynum \<Rightarrow> string option \<Rightarrow> history \<Rightarrow> (error + string) \<times> history" where
  "create_account lib self address starting_balance memo_text h =
     (if \<not> is_valid_address lib address then (Inl (ValueError (''invalid address: '' @ address)), h)
      else send_and_hash lib self (Append_create_account_op address starting_balance) memo_text h)"

definition ten_million :: pynum where
  \<comment> \<open>the literal \<^verbatim>\<open>1e7\<close>\<close>
  "ten_million = PyFloat (Finite 10000000 0)"

definition send_asset ::
  "sdk \<Rightarrow> KinAccount \<Rightarrow> Asset \<Rightarrow> string \<Rightarrow> pynum \<Rightarrow> string option \<Rightarrow> history \<Rightarrow> (error + string) \<times> history" where
  \<comment> \<open>\<^verbatim>\<open>_send_asset\<close>\<close>
  "send_asset lib self asset address amount memo_text h =
     (if \<not> is_valid_address lib address then (Inl (ValueError (''invalid address: '' @ address)), h)
      else if py_le amount (PyInt 0) then (Inl (ValueError ''amount must be positive''), h)
      else
        case py_mul amount ten_million of
          Inl e \<Rightarrow> (Inl e, h)
        | Inr scaled \<Rightarrow>
            if py_ne (py_mod1 scaled) (PyInt 0)
            then (Inl (ValueError ''Number of digits after the decimal point in the amount exceeded the limit(7).''), h)
            else send_and_hash lib self (Append_payment_op address amount (code asset) (issuer asset)) memo_text h)"

definition native :: Asset where
  \<comment> \<open>\<^verbatim>\<open>Asset.native()\<close> of the ledger library: the asset \<^verbatim>\<open>XLM\<close>, which has no issuer\<close>
  "native = \<lparr>code = ''XLM'', issuer = None\<rparr>"

definition send_xlm ::
  "sdk \<Rightarrow> KinAccount \<Rightarrow> string \<Rightarrow> pynum \<Rightarrow> string option \<Rightarrow> history \<Rightarrow> (error + string) \<times> history" where
  "send_xlm lib self address amount memo_text h = send_asset lib self native address amount memo_text h"

definition send_kin ::
  "sdk \<Rightarrow> KinAccount \<Rightarrow> string \<Rightarrow> pynum \<Rightarrow> string option \<Rightarrow> history \<Rightarrow> (error + string) \<times> history" where
  "send_kin lib self address amount memo_text h =
     send_asset lib self (kin_asset (client self)) address amount memo_text h"

text \<open>
  The precision of the ledger, in the words of the documentation of \<^verbatim>\<open>_send_asset\<close>
  (the amount is "too precise" when the "number of digits after the decimal point"
  exceeds 7): a number has at most seven decimal digits when it is a whole multiple
  of \<open>10 ^ - 7\<close>, that is, when ten million times the number is whole. This is the
  property that the test \<^verbatim>\<open>amount * 1e7 % 1 != 0\<close> is compared with; the test itself
  is part of \<open>send_asset\<close> above.
\<close>

fun seven_decimals :: "pynum \<Rightarrow> bool" where
  "seven_decimals (PyInt n) = True"
| "seven_decimals (PyFloat (Finite m e)) =
     (if 0 \<le> e then True else (m * 10 ^ 7) mod 2 ^ nat (- e) = 0)"
| "seven_decimals (PyFloat x) = False"

text \<open>A float is whole when it is finite and has no fractional part.\<close>

fun fl_whole :: "pyfloat \<Rightarrow> bool" where
  "fl_whole (Finite n k) = (0 \<le> k \<or> n mod 2 ^ nat (- k) = 0)"
| "fl_whole x = False"

subsection \<open>The constructor\<close>

text \<open>The loop over the channel seeds given by the caller; \<open>Some\<close> is the error raised.\<close>

fun check_channels :: "sdk \<Rightarrow> KinClient \<Rightarrow> string list \<Rightarrow> history \<Rightarrow> error option \<times> history" where
  "check_channels lib c [] h = (None, h)"
| "check_channels lib c (channel_key # rest) h =
     (if \<not> is_valid_secret_key lib channel_key
      then (Some (ValueError (''invalid channel key: '' @ channel_key)), h)
      else
        let channel_address = address_from_seed lib channel_key;
            (status, h') = call_get_account_data c channel_address h
        in if status \<noteq> NOT_CREATED then (Some AccountNotFoundError, h')
           else check_channels lib c rest h')"

text \<open>
  The loop that creates the channels from the base account: an
  \<^verbatim>\<open>AccountExistsError\<close> is passed over, any other error ends the constructor.
\<close>

fun create_channel_accounts :: "sdk \<Rightarrow> KinAccount \<Rightarrow> string list \<Rightarrow> history \<Rightarrow> error option \<times> history" where
  "create_channel_accounts lib base_account [] h = (None, h)"
| "create_channel_accounts lib base_account (channel # rest) h =
     (case create_account lib base_account channel (MIN_ACCOUNT_BALANCE lib) None h of
        (Inl e, h') \<Rightarrow>
          if e = AccountExistsError then create_channel_accounts lib base_account rest h'
          else (Some e, h')
      | (Inr tx_hash, h') \<Rightarrow> create_channel_accounts lib base_account rest h')"

text \<open>
  \<^verbatim>\<open>(len(self.channel_secret_keys) + 1) * (MIN_ACCOUNT_BALANCE + 0.00001) >
  base_account.get_balances()['XLM']\<close>: the left side is computed first, then the
  balances are fetched. \<open>Inr True\<close> is a balance too low.
\<close>

definition low_balance :: "sdk \<Rightarrow> KinAccount \<Rightarrow> string list \<Rightarrow> history \<Rightarrow> (error + bool) \<times> history" where
  "low_balance lib base_account keys h =
     (case py_add (MIN_ACCOUNT_BALANCE lib) (PyFloat (fl_ratio 1 100000)) of
        Inl e \<Rightarrow> (Inl e, h)
      | Inr per_account \<Rightarrow>
          (case py_mul (PyInt (int (length keys) + 1)) per_account of
             Inl e \<Rightarrow> (Inl e, h)
           | Inr needed \<Rightarrow>
               (case get_balances base_account h of
                  (Inl e, base_account', h') \<Rightarrow> (Inl e, h')
                | (Inr bs, base_account', h') \<Rightarrow>
                    (case bs ''XLM'' of
                       None \<Rightarrow> (Inl (KeyError ''XLM''), h')
                     | Some xlm \<Rightarrow> (Inr (py_gt needed xlm), h')))))"

function KinAccount_init ::
  "sdk \<Rightarrow> string \<Rightarrow> KinClient \<Rightarrow> int option \<Rightarrow> string list option \<Rightarrow> bool \<Rightarrow> history
     \<Rightarrow> (error + KinAccount) \<times> history" where
  "KinAccount_init lib seed c channels given_keys create_channels h =
     (if \<not> is_valid_secret_key lib seed
      then (Inl (ValueError (''invalid secret key: '' @ seed)), h)
      else
        let kp = Keypair lib seed;
            (status, h1) = call_get_account_data c (public_address kp) h
        in
        if status \<noteq> NOT_ACTIVATED then (Inl AccountNotActivatedError, h1)
        else if channels \<noteq> None \<and> given_keys \<noteq> None
        then (Inl (ValueError
               ''Account cannot be initialized with both 'channels' and 'channel_secret_keys' parameters''), h1)
        else
          case (case given_keys of
                  Some keys \<Rightarrow>
                    (case check_channels lib c keys h1 of
                       (Some e, h2) \<Rightarrow> (Inl e, h2)
                     | (None, h2) \<Rightarrow> (Inr keys, h2))
                | None \<Rightarrow>
                    (case channels of
                       Some n \<Rightarrow> (Inr (map (\<lambda>channel. generate_hd_seed lib seed (str channel)) (py_range n)), h1)
                     | None \<Rightarrow> (Inr [seed], h1)))
          of
            (Inl e, h2) \<Rightarrow> (Inl e, h2)
          | (Inr keys, h2) \<Rightarrow>
              (case (if create_channels
                     then
                       if channels = None
                       then (Some (ValueError ''create_channels can only be used with the channels parameter''), h2)
                       else if keys = [seed]
                       then (Some (ValueError ''There are no channels to create''), h2)
                       else
                         (case KinAccount_init lib seed c None None False h2 of
                            (Inl e, h3) \<Rightarrow> (Some e, h3)
                          | (Inr base_account, h3) \<Rightarrow>
                              (case low_balance lib base_account keys h3 of
                                 (Inl e, h4) \<Rightarrow> (Some e, h4)
                               | (Inr True, h4) \<Rightarrow>
                                   (Some (LowBalanceError
                                      ''The base account does not have enough XLM to create the channels''), h4)
                               | (Inr False, h4) \<Rightarrow> create_channel_accounts lib base_account keys h4))
                     else (None, h2))
               of
                 (Some e, h5) \<Rightarrow> (Inl e, h5)
               | (None, h5) \<Rightarrow>
                   let pool = max 1 (length keys) + 2;
                       hz = \<lparr>uri = horizon_uri (environment c), pool_size = pool,
                              user_agent = SDK_USER_AGENT lib\<rparr>
                   in (Inr \<lparr>client = c, keypair = kp, channel_secret_keys = keys,
                             account_horizon = hz,
                             channel_manager =
                               \<lparr>base_seed = seed, channel_seeds = keys,
                                network_name = name (environment c), horizon = hz\<rparr>\<rparr>, h5)))"
  by pat_completeness auto
termination
  by (relation "measure (\<lambda>(lib, seed, c, channels, given_keys, create_channels, h). if create_channels then 1 else 0)") auto

declare KinAccount_init.simps [simp del]

subsection \<open>The derivation of channel seeds\<close>

text \<open>
  Modelled from the spec: \<^verbatim>\<open>Keypair.generate_hd_seed\<close> (\<^verbatim>\<open>blockchain/keypair.py\<close>) is
  missing. The spec says of the derivation that it is a deterministic, pure function
  of the master seed and the index, and that \<open>N\<close> requested channels yield \<open>N\<close>
  distinct seeds. A function of HOL is deterministic and pure. That the seeds derived
  from one master seed for the indices \<open>0, \<dots>, N - 1\<close> differ from each other is a
  property of the function, stated here for the texts \<^verbatim>\<open>str(0)\<close>, \<dots>, \<^verbatim>\<open>str(N - 1)\<close>
  that the constructor passes.
\<close>

definition derivation_collision_free :: "sdk \<Rightarrow> string \<Rightarrow> int \<Rightarrow> bool" where
  "derivation_collision_free lib seed n = inj_on (generate_hd_seed lib seed) (str ` {0..<n})"

section \<open>\<^verbatim>\<open>Builder\<close> (\<^verbatim>\<open>kin/stellar/builder.py\<close>)\<close>

text \<open>
  \<^verbatim>\<open>int(x)\<close>, as \<^verbatim>\<open>next\<close> applies it to the sequence. The sequence of a builder is the
  \<^verbatim>\<open>int\<close> the constructor passes on (\<^verbatim>\<open>sequence=1\<close>), the text that \<^verbatim>\<open>get_sequence\<close>
  reads from the ledger, or \<^verbatim>\<open>None\<close> when the ledger's answer has no such key. Of a text,
  \<^verbatim>\<open>int\<close> skips the white space around it and reads an optional sign and decimal
  digits, which single underscores may group; anything else is a \<^verbatim>\<open>ValueError\<close>.
  Characters are taken as ASCII.
\<close>

datatype pyval = PyNone | PyInteger int | PyStr string

definition is_space :: "char \<Rightarrow> bool" where
  "is_space ch = (ch \<in> set [CHR '' '', CHR 0x09, CHR 0x0A, CHR 0x0B, CHR 0x0C, CHR 0x0D,
                              CHR 0x1C, CHR 0x1D, CHR 0x1E, CHR 0x1F])"

definition strip :: "string \<Rightarrow> string" where
  "strip s = rev (dropWhile is_space (rev (dropWhile is_space s)))"

definition is_digit :: "char \<Rightarrow> bool" where
  "is_digit ch = (ch \<in> set ''0123456789'')"

definition digit_val :: "char \<Rightarrow> int" where
  "digit_val ch = int (of_char ch) - 48"

fun parse_digits :: "string \<Rightarrow> bool \<Rightarrow> int \<Rightarrow> int option" where
  \<comment> \<open>the flag: the character before was a digit\<close>
  "parse_digits [] after_digit acc = (if after_digit then Some acc else None)"
| "parse_digits (ch # rest) after_digit acc =
     (if is_digit ch then parse_digits rest True (10 * acc + digit_val ch)
      else if ch = CHR ''_'' \<and> after_digit then parse_digits rest False acc
      else None)"

definition int_of_text :: "string \<Rightarrow> int option" where
  "int_of_text s =
     (case strip s of
        [] \<Rightarrow> None
      | ch # rest \<Rightarrow>
          if ch = CHR ''-'' then map_option uminus (parse_digits rest False 0)
          else if ch = CHR ''+'' then parse_digits rest False 0
          else parse_digits (ch # rest) False 0)"

fun py_int :: "pyval \<Rightarrow> error + int" where
  "py_int (PyInteger n) = Inr n"
| "py_int (PyStr s) =
     (case int_of_text s of
        None \<Rightarrow> Inl (ValueError (''invalid literal for int() with base 10: '' @ s))
      | Some n \<Rightarrow> Inr n)"
| "py_int PyNone = Inl (TypeError ''int() argument must be a string, a bytes-like object or a number'')"

datatype Memo = NoneMemo | TextMemo string | IdMemo int | HashMemo string | RetHashMemo string

text \<open>
  The fields of a builder that \<^verbatim>\<open>builder.py\<close> reads or writes. The operations, time
  bounds, transaction and envelope are objects of the ledger library, so their types
  are left open; a builder may hold further fields (the record is extensible).
\<close>

record ('op, 'tb, 'tx, 'te) Builder =
  address :: string
  sequence :: pyval
  ops :: "'op list"
  time_bounds :: "'tb list"
  memo :: Memo
  fee :: "int option"
  tx :: "'tx option"
  te :: "'te option"
  network :: string
  builder_horizon :: Horizon

definition clear ::
  "('op, 'tb, 'tx, 'te, 'z) Builder_scheme \<Rightarrow> ('op, 'tb, 'tx, 'te, 'z) Builder_scheme" where
  "clear self = self\<lparr>ops := [], time_bounds := [], memo := NoneMemo, fee := None, tx := None, te := None\<rparr>"

text \<open>
  \<^verbatim>\<open>next\<close>: the builder is cleared, then the sequence is set. When \<^verbatim>\<open>int\<close> raises, the
  builder stays cleared and keeps its sequence.
\<close>

definition builder_next ::
  "('op, 'tb, 'tx, 'te, 'z) Builder_scheme \<Rightarrow> (error + unit) \<times> ('op, 'tb, 'tx, 'te, 'z) Builder_scheme" where
  "builder_next self =
     (let self' = clear self
      in case py_int (sequence self') of
           Inl e \<Rightarrow> (Inl e, self')
         | Inr n \<Rightarrow> (Inr (), self'\<lparr>sequence := PyStr (str (n + 1))\<rparr>))"

section \<open>An example library, ledger and account\<close>

text \<open>
  Concrete collaborators on which the theorems below are run. The seeds and addresses
  are those of \<^verbatim>\<open>test/test_account.py\<close>; a key is taken as well-formed when it has 56
  characters and the right first letter, and a seed derived for a channel is the
  master seed followed by the index.
\<close>

definition SDK_SEED :: string where
  "SDK_SEED = ''SBKI7MEF62NHHH3AOXBHII46K2FD3LVH63FYHUDLTBUYT3II6RAFLZ7B''"

definition SDK_PUBLIC :: string where
  "SDK_PUBLIC = ''GAIDUTTQ5UIZDW7VZ2S3ZAFLY6LCRT5ZVHF5X3HDJVDQ4OJWYGJVJDZB''"

definition CHANNEL_SEED :: string where
  "CHANNEL_SEED = ''SBYU2EBGTTGIFR4O4K4SQXTD4ISMVX4R5TX2TTB4SWVIA5WVRS2MHN4K''"

definition CHANNEL_PUBLIC :: string where
  "CHANNEL_PUBLIC = ''GBKZAXTDJRYBK347KDTOFWEBDR7OW3U67XV2BOF2NLBNEGRQ2WN6HFK6''"

definition RECIPIENT :: string where
  "RECIPIENT = ''GBZWWLRJRWL4DLYOJMCHXJUOJJY5NLNJHQDRQHVQH43KFCPC3LEOWPYM''"

definition example_address :: "string \<Rightarrow> string" where
  "example_address s =
     (if s = SDK_SEED then SDK_PUBLIC
      else if s = CHANNEL_SEED then CHANNEL_PUBLIC
      else CHR ''G'' # drop 1 s)"

definition example_sdk :: sdk where
  "example_sdk =
     \<lparr>is_valid_secret_key = (\<lambda>s. length s = 56 \<and> take 1 s = ''S''),
      is_valid_address = (\<lambda>s. length s = 56 \<and> take 1 s = ''G''),
      Keypair = (\<lambda>s. \<lparr>secret_seed = s, public_address = example_address s\<rparr>),
      address_from_seed = example_address,
      generate_hd_seed = (\<lambda>s salt. s @ CHR ''/'' # salt),
      MIN_ACCOUNT_BALANCE = PyInt 0,
      SDK_USER_AGENT = ''kin-python'',
      send_transaction = (\<lambda>h cm req memo_text. Inr [''hash'' \<mapsto> ''9f3c'']),
      translate_error = (\<lambda>e. e)\<rparr>"

definition example_client :: "(string \<times> AccountStatus) list \<Rightarrow> KinClient" where
  \<comment> \<open>a ledger that holds the listed accounts and no other\<close>
  "example_client accounts =
     \<lparr>get_account_data =
        (\<lambda>h a. case map_of accounts a of None \<Rightarrow> NOT_CREATED | Some st \<Rightarrow> st),
      get_account_balances = (\<lambda>h a. Inr [''XLM'' \<mapsto> PyInt 100, ''KIN'' \<mapsto> PyInt 5000]),
      kin_asset = \<lparr>code = ''KIN'', issuer = Some ''GA3FLH3EVYHZUHTPQZU63JPX7ECJQL2XZFCMALPCLFYMSYC4JKVLAJWM''\<rparr>,
      environment = \<lparr>name = ''DOCKER'', horizon_uri = ''http://localhost:8008''\<rparr>\<rparr>"

definition example_horizon :: Horizon where
  "example_horizon = \<lparr>uri = ''http://localhost:8008'', pool_size = 3, user_agent = ''kin-python''\<rparr>"

definition example_account :: KinAccount where
  \<comment> \<open>the account that the constructor builds for \<open>SDK_SEED\<close> with no channels\<close>
  "example_account =
     \<lparr>client = example_client [(SDK_PUBLIC, NOT_ACTIVATED)],
      keypair = \<lparr>secret_seed = SDK_SEED, public_address = SDK_PUBLIC\<rparr>,
      channel_secret_keys = [SDK_SEED],
      account_horizon = example_horizon,
      channel_manager =
        \<lparr>base_seed = SDK_SEED, channel_seeds = [SDK_SEED], network_name = ''DOCKER'',
         horizon = example_horizon\<rparr>\<rparr>"

definition example_builder :: "(nat, nat, nat, nat) Builder" where
  "example_builder =
     \<lparr>address = SDK_PUBLIC, sequence = PyStr ''41'', ops = [7], time_bounds = [0, 100],
      memo = TextMemo ''Hello'', fee = Some 100, tx = Some 1, te = Some 2,
      network = ''PUBLIC'',
      builder_horizon = example_horizon\<rparr>"

section \<open>Properties of the text of an integer\<close>

lemma digit_char_code:
  assumes "d < 10"
  shows "(of_char (digit_char d) :: nat) = 48 + d"
proof -
  from assms consider "d = 0" | "d = 1" | "d = 2" | "d = 3" | "d = 4"
    | "d = 5" | "d = 6" | "d = 7" | "d = 8" | "d = 9"
    by atomize_elim arith
  then show ?thesis
    by cases (simp_all add: digit_char_def)
qed

lemma digit_char_inj:
  assumes "a < 10" and "b < 10" and "digit_char a = digit_char b"
  shows "a = b"
proof -
  have "(of_char (digit_char a) :: nat) = of_char (digit_char b)"
    using assms(3) by simp
  then show ?thesis
    using assms(1,2) by (simp add: digit_char_code)
qed

lemma digit_char_not_minus:
  assumes "d < 10"
  shows "digit_char d \<noteq> CHR ''-''"
proof
  assume "digit_char d = CHR ''-''"
  then have "(of_char (digit_char d) :: nat) = of_char (CHR ''-'')"
    by simp
  then show False
    using assms by (simp add: digit_char_code)
qed

lemma str_nat_nonempty: "str_nat n \<noteq> []" "[] \<noteq> str_nat n"
  by (subst str_nat.simps, simp)+

lemma str_nat_hd: "\<exists>d<10. hd (str_nat n) = digit_char d"
proof (induction n rule: str_nat.induct)
  case (1 n)
  show ?case
  proof (cases "n < 10")
    case True
    then show ?thesis
      by (subst str_nat.simps) auto
  next
    case False
    with 1 obtain d where "d < 10" and "hd (str_nat (n div 10)) = digit_char d"
      by auto
    with False show ?thesis
      by (subst str_nat.simps) (auto simp add: str_nat_nonempty)
  qed
qed

lemma str_nat_inj: "str_nat m = str_nat n \<Longrightarrow> m = n"
proof (induction m arbitrary: n rule: str_nat.induct)
  case (1 m)
  show ?case
  proof (cases "m < 10")
    case m_small: True
    show ?thesis
    proof (cases "n < 10")
      case True
      with m_small "1.prems" show ?thesis
        by (simp add: str_nat.simps [of m] str_nat.simps [of n] digit_char_inj)
    next
      case False
      with m_small "1.prems" show ?thesis
        by (simp add: str_nat.simps [of m] str_nat.simps [of n] str_nat_nonempty)
    qed
  next
    case m_big: False
    show ?thesis
    proof (cases "n < 10")
      case True
      with m_big "1.prems" show ?thesis
        by (simp add: str_nat.simps [of m] str_nat.simps [of n] str_nat_nonempty)
    next
      case False
      with m_big "1.prems"
      have eq: "str_nat (m div 10) = str_nat (n div 10)"
        and last: "digit_char (m mod 10) = digit_char (n mod 10)"
        by (simp_all add: str_nat.simps [of m] str_nat.simps [of n])
      from eq m_big have "m div 10 = n div 10"
        by (rule "1.IH" [rotated])
      moreover from last have "m mod 10 = n mod 10"
        by (rule digit_char_inj [rotated 2]) simp_all
      ultimately show ?thesis
        by (metis div_mult_mod_eq)
    qed
  qed
qed

lemma str_inj: "str i = str j \<Longrightarrow> i = j"
proof -
  assume eq: "str i = str j"
  have no_minus: "hd (str_nat k) \<noteq> CHR ''-''" for k
  proof -
    obtain d where "d < 10" and "hd (str_nat k) = digit_char d"
      using str_nat_hd [of k] by blast
    then show ?thesis
      by (simp add: digit_char_not_minus)
  qed
  have neq: "CHR ''-'' # xs \<noteq> str_nat k" for xs k
    using no_minus [of k] by (cases "str_nat k") auto
  show ?thesis
  proof (cases "i < 0")
    case i_neg: True
    show ?thesis
    proof (cases "j < 0")
      case True
      with i_neg eq have "nat (- i) = nat (- j)"
        by (simp add: str_def str_nat_inj)
      with i_neg True show ?thesis by simp
    next
      case False
      with i_neg eq neq show ?thesis
        by (simp add: str_def)
    qed
  next
    case i_pos: False
    show ?thesis
    proof (cases "j < 0")
      case True
      with i_pos eq neq [of "str_nat (nat (- j))" "nat i"] show ?thesis
        by (simp add: str_def)
    next
      case False
      with i_pos eq have "nat i = nat j"
        by (simp add: str_def str_nat_inj)
      with i_pos False show ?thesis by simp
    qed
  qed
qed

lemma length_py_range: "length (py_range n) = nat n"
  by (simp add: py_range_def)

lemma distinct_py_range: "distinct (py_range n)"
  by (simp add: py_range_def)

lemma nth_py_range: "i < nat n \<Longrightarrow> py_range n ! i = int i"
  by (simp add: py_range_def)

subsection \<open>Reading the text back\<close>

lemma digit_char_is_digit: "d < 10 \<Longrightarrow> is_digit (digit_char d)"
  by (simp add: is_digit_def digit_char_def del: set_simps)

lemma digit_char_val: "d < 10 \<Longrightarrow> digit_val (digit_char d) = int d"
  by (simp add: digit_val_def digit_char_code)

lemma digit_char_not_space: "d < 10 \<Longrightarrow> \<not> is_space (digit_char d)"
proof -
  assume "d < 10"
  then have "digit_char d \<in> set ''0123456789''"
    by (simp add: digit_char_def del: set_simps)
  moreover have "\<forall>ch \<in> set ''0123456789''. \<not> is_space ch"
    by (simp add: is_space_def)
  ultimately show ?thesis
    by blast
qed

lemma digit_char_not_plus: "d < 10 \<Longrightarrow> digit_char d \<noteq> CHR ''+''"
proof
  assume "d < 10" and "digit_char d = CHR ''+''"
  then have "(of_char (digit_char d) :: nat) = of_char (CHR ''+'')"
    by simp
  with \<open>d < 10\<close> show False
    by (simp add: digit_char_code)
qed

lemma parse_digits_append:
  "list_all is_digit xs \<Longrightarrow>
   parse_digits (xs @ ys) after_digit acc =
     parse_digits ys (after_digit \<or> xs \<noteq> []) (foldl (\<lambda>a ch. 10 * a + digit_val ch) acc xs)"
  by (induction xs arbitrary: after_digit acc) simp_all

lemma str_nat_digits: "list_all is_digit (str_nat n)"
proof (induction n rule: str_nat.induct)
  case (1 n)
  show ?case
  proof (cases "n < 10")
    case True
    then show ?thesis
      by (subst str_nat.simps) (simp add: digit_char_is_digit)
  next
    case False
    with 1 show ?thesis
      by (subst str_nat.simps) (simp add: digit_char_is_digit)
  qed
qed

lemma str_nat_value: "foldl (\<lambda>a ch. 10 * a + digit_val ch) 0 (str_nat n) = int n"
proof (induction n rule: str_nat.induct)
  case (1 n)
  show ?case
  proof (cases "n < 10")
    case True
    then show ?thesis
      by (subst str_nat.simps) (simp add: digit_char_val)
  next
    case False
    with 1 have "foldl (\<lambda>a ch. 10 * a + digit_val ch) 0 (str_nat (n div 10)) = int (n div 10)"
      by simp
    with False show ?thesis
      by (subst str_nat.simps) (simp add: digit_char_val zdiv_int zmod_int)
  qed
qed

lemma parse_str_nat: "parse_digits (str_nat n) False 0 = Some (int n)"
  using parse_digits_append [OF str_nat_digits, of n "[]" False 0]
  by (simp add: str_nat_value str_nat_nonempty)

lemma str_nat_last: "\<exists>d<10. last (str_nat n) = digit_char d"
proof (cases "n < 10")
  case True
  then show ?thesis
    by (subst str_nat.simps) auto
next
  case False
  then have "last (str_nat n) = digit_char (n mod 10)"
    by (subst str_nat.simps) simp
  moreover have "n mod 10 < 10"
    by simp
  ultimately show ?thesis
    by blast
qed

lemma dropWhile_unchanged: "xs \<noteq> [] \<Longrightarrow> \<not> P (hd xs) \<Longrightarrow> dropWhile P xs = xs"
  by (cases xs) simp_all

lemma strip_unchanged:
  assumes "s \<noteq> []" and "\<not> is_space (hd s)" and "\<not> is_space (last s)"
  shows "strip s = s"
proof -
  from assms(1,2) have "dropWhile is_space s = s"
    by (rule dropWhile_unchanged)
  moreover from assms(1,3) have "dropWhile is_space (rev s) = rev s"
    by (intro dropWhile_unchanged) (simp_all add: hd_rev)
  ultimately show ?thesis
    by (simp add: strip_def)
qed

lemma int_of_text_str: "int_of_text (str i) = Some i"
proof (cases "i < 0")
  case True
  obtain d where d: "d < 10" "last (str_nat (nat (- i))) = digit_char d"
    using str_nat_last by blast
  have "\<not> is_space CHR ''-''"
    by (simp add: is_space_def)
  then have "strip (CHR ''-'' # str_nat (nat (- i))) = CHR ''-'' # str_nat (nat (- i))"
    by (intro strip_unchanged) (simp_all add: str_nat_nonempty d digit_char_not_space)
  with True show ?thesis
    by (simp add: int_of_text_def str_def parse_str_nat)
next
  case False
  obtain d where d: "d < 10" "hd (str_nat (nat i)) = digit_char d"
    using str_nat_hd by blast
  obtain d' where d': "d' < 10" "last (str_nat (nat i)) = digit_char d'"
    using str_nat_last by blast
  have unchanged: "strip (str_nat (nat i)) = str_nat (nat i)"
    by (rule strip_unchanged) (simp_all add: str_nat_nonempty d d' digit_char_not_space)
  obtain ch rest where split: "str_nat (nat i) = ch # rest"
    using str_nat_nonempty(1) [of "nat i"] by (cases "str_nat (nat i)") auto
  with d have "ch \<noteq> CHR ''-''" and "ch \<noteq> CHR ''+''"
    by (auto simp add: digit_char_not_minus digit_char_not_plus)
  with False unchanged split parse_str_nat [of "nat i"] show ?thesis
    by (simp add: int_of_text_def str_def)
qed

section \<open>The constructor of \<^verbatim>\<open>KinAccount\<close>\<close>



text \<open>
  Claim C9. With a well-formed base seed, the constructor raises
  \<^verbatim>\<open>AccountNotActivatedError\<close> unless the status that the client reports for the base
  account is exactly \<open>NOT_ACTIVATED\<close>: an \<open>ACTIVATED\<close> base account and one that is
  \<open>NOT_CREATED\<close> are both rejected, whatever the other arguments, after the one query
  of the base account.
\<close>

theorem base_account_must_be_not_activated:
  assumes "is_valid_secret_key lib seed"
    and "get_account_data c h (public_address (Keypair lib seed)) \<noteq> NOT_ACTIVATED"
  shows "KinAccount_init lib seed c channels given_keys create_channels h =
     (Inl AccountNotActivatedError, h @ [Get_account_data (public_address (Keypair lib seed))])"
  using assms
  by (subst KinAccount_init.simps) (simp add: call_get_account_data_def)

theorem base_account_must_be_not_activated_witness:
  "is_valid_secret_key example_sdk SDK_SEED
   \<and> get_account_data (example_client [(SDK_PUBLIC, ACTIVATED)]) [] (public_address (Keypair example_sdk SDK_SEED))
       = ACTIVATED
   \<and> KinAccount_init example_sdk SDK_SEED (example_client [(SDK_PUBLIC, ACTIVATED)]) None None False []
       = (Inl AccountNotActivatedError, [Get_account_data SDK_PUBLIC])
   \<and> get_account_data (example_client []) [] (public_address (Keypair example_sdk SDK_SEED)) = NOT_CREATED
   \<and> KinAccount_init example_sdk SDK_SEED (example_client []) None None False []
       = (Inl AccountNotActivatedError, [Get_account_data SDK_PUBLIC])"
proof -
  have valid: "is_valid_secret_key example_sdk SDK_SEED"
    by (simp add: example_sdk_def example_address_def SDK_SEED_def)
  have addr: "public_address (Keypair example_sdk SDK_SEED) = SDK_PUBLIC"
    by (simp add: example_sdk_def example_address_def)
  have activated:
    "get_account_data (example_client [(SDK_PUBLIC, ACTIVATED)]) [] (public_address (Keypair example_sdk SDK_SEED))
       = ACTIVATED"
    by (simp add: example_client_def addr)
  have absent: "get_account_data (example_client []) [] (public_address (Keypair example_sdk SDK_SEED)) = NOT_CREATED"
    by (simp add: example_client_def)
  have "KinAccount_init example_sdk SDK_SEED (example_client [(SDK_PUBLIC, ACTIVATED)]) None None False []
       = (Inl AccountNotActivatedError, [Get_account_data SDK_PUBLIC])"
    using base_account_must_be_not_activated [OF valid, of "example_client [(SDK_PUBLIC, ACTIVATED)]" "[]"]
      activated by (simp add: addr)
  moreover have "KinAccount_init example_sdk SDK_SEED (example_client []) None None False []
       = (Inl AccountNotActivatedError, [Get_account_data SDK_PUBLIC])"
    using base_account_must_be_not_activated [OF valid, of "example_client []" "[]"]
      absent by (simp add: addr)
  ultimately show ?thesis
    using valid activated absent by simp
qed

text \<open>
  Claim C7. When neither a channel count nor a list of channel seeds is given and
  the constructor returns an account, the channel seeds of the account, and those
  handed to its channel manager, are the one-element list of the base seed.
\<close>

theorem no_channels_means_base_seed:
  assumes "KinAccount_init lib seed c None None create_channels h = (Inr acc, h')"
  shows "channel_secret_keys acc = [seed] \<and> channel_seeds (channel_manager acc) = [seed]"
  using assms
  by (subst (asm) KinAccount_init.simps)
     (auto simp add: call_get_account_data_def Let_def split: if_splits)

theorem no_channels_means_base_seed_witness:
  "KinAccount_init example_sdk SDK_SEED (example_client [(SDK_PUBLIC, NOT_ACTIVATED)]) None None False []
     = (Inr example_account, [Get_account_data SDK_PUBLIC])
   \<and> channel_secret_keys example_account = [SDK_SEED]
   \<and> channel_seeds (channel_manager example_account) = [SDK_SEED]"
proof -
  have built:
    "KinAccount_init example_sdk SDK_SEED (example_client [(SDK_PUBLIC, NOT_ACTIVATED)]) None None False []
       = (Inr example_account, [Get_account_data SDK_PUBLIC])"
    by (subst KinAccount_init.simps)
       (simp add: example_sdk_def example_address_def example_client_def example_account_def example_horizon_def
          call_get_account_data_def SDK_SEED_def SDK_PUBLIC_def Let_def numeral_3_eq_3)
  from no_channels_means_base_seed [OF built] built show ?thesis
    by simp
qed







text \<open>
  Claim C6. When a channel count \<open>n\<close> is given, no list of seeds, and the constructor
  returns an account, its channel seeds are the seeds derived from the master seed
  and the texts of \<open>0, \<dots>, n - 1\<close>, in this order: a list of \<open>n\<close> entries that
  depends on the master seed and \<open>n\<close> only, whose \<open>i\<close>-th entry depends on the master
  seed and \<open>i\<close> only. The entries are distinct when the derivation has no collision on
  these indices, since the texts of different integers differ.
\<close>

theorem derived_channel_seeds:
  assumes "derivation_collision_free lib seed n"
    and "KinAccount_init lib seed c (Some n) None create_channels h = (Inr acc, h')"
  shows "channel_secret_keys acc = map (\<lambda>i. generate_hd_seed lib seed (str i)) (py_range n)
    \<and> length (channel_secret_keys acc) = nat n
    \<and> (\<forall>i < nat n. channel_secret_keys acc ! i = generate_hd_seed lib seed (str (int i)))
    \<and> distinct (channel_secret_keys acc)
    \<and> channel_seeds (channel_manager acc) = channel_secret_keys acc"
proof -
  from assms(2)
  have keys: "channel_secret_keys acc = map (\<lambda>i. generate_hd_seed lib seed (str i)) (py_range n)"
    and manager: "channel_seeds (channel_manager acc) = channel_secret_keys acc"
    by (subst (asm) KinAccount_init.simps,
        auto simp add: call_get_account_data_def Let_def
          split: if_splits prod.splits option.splits sum.splits bool.splits)+
  have len: "length (channel_secret_keys acc) = nat n"
    by (simp add: keys length_py_range)
  have nth: "channel_secret_keys acc ! i = generate_hd_seed lib seed (str (int i))" if "i < nat n" for i
    using that by (simp add: keys length_py_range nth_py_range)
  have "inj_on str (set (py_range n))"
    by (rule inj_onI) (rule str_inj)
  moreover have "set (py_range n) = {0..<n}"
    by (auto simp add: py_range_def)
  ultimately have "inj_on (generate_hd_seed lib seed \<circ> str) (set (py_range n))"
    using assms(1) by (simp add: derivation_collision_free_def comp_inj_on)
  then have "distinct (map (generate_hd_seed lib seed \<circ> str) (py_range n))"
    by (simp add: distinct_map distinct_py_range)
  then have "distinct (channel_secret_keys acc)"
    by (simp add: keys comp_def)
  with keys len nth manager show ?thesis
    by blast
qed

theorem derived_channel_seeds_witness:
  "\<exists>acc h'.
     derivation_collision_free example_sdk SDK_SEED 3
     \<and> KinAccount_init example_sdk SDK_SEED (example_client [(SDK_PUBLIC, NOT_ACTIVATED)])
         (Some 3) None False [] = (Inr acc, h')
     \<and> channel_secret_keys acc = [SDK_SEED @ ''/0'', SDK_SEED @ ''/1'', SDK_SEED @ ''/2'']
     \<and> length (channel_secret_keys acc) = 3
     \<and> distinct (channel_secret_keys acc)"
proof -
  have free: "derivation_collision_free example_sdk SDK_SEED 3"
    by (simp add: derivation_collision_free_def example_sdk_def example_address_def inj_on_def)
  have "\<exists>acc h'.
     KinAccount_init example_sdk SDK_SEED (example_client [(SDK_PUBLIC, NOT_ACTIVATED)])
       (Some 3) None False [] = (Inr acc, h')"
    by (subst KinAccount_init.simps)
       (simp add: example_sdk_def example_address_def example_client_def call_get_account_data_def
          SDK_SEED_def SDK_PUBLIC_def Let_def)
  then obtain acc h' where built:
    "KinAccount_init example_sdk SDK_SEED (example_client [(SDK_PUBLIC, NOT_ACTIVATED)])
       (Some 3) None False [] = (Inr acc, h')"
    by blast
  have texts: "map str (py_range 3) = [''0'', ''1'', ''2'']"
    by (simp add: py_range_def upto.simps str_def str_nat.simps digit_char_def)
  have "map (\<lambda>i. generate_hd_seed example_sdk SDK_SEED (str i)) (py_range 3)
      = map (\<lambda>t. SDK_SEED @ CHR ''/'' # t) (map str (py_range 3))"
    by (simp add: example_sdk_def example_address_def)
  then have "map (\<lambda>i. generate_hd_seed example_sdk SDK_SEED (str i)) (py_range 3)
      = [SDK_SEED @ ''/0'', SDK_SEED @ ''/1'', SDK_SEED @ ''/2'']"
    by (simp add: texts)
  with derived_channel_seeds [OF free built] free built show ?thesis
    by auto
qed

subsection \<open>What the constructor returns\<close>

text \<open>
  What an account returned by the constructor holds: the client and the keypair of
  the seed, a horizon with a pool of \<^verbatim>\<open>max(1, len(channel_secret_keys)) + 2\<close>
  connections, and a channel manager over the same seeds and horizon. The base seed
  is then well-formed and the base account was reported \<open>NOT_ACTIVATED\<close>.
\<close>

lemma constructed_account:
  assumes "KinAccount_init lib seed c channels given_keys create_channels h = (Inr acc, h')"
  shows "client acc = c
    \<and> keypair acc = Keypair lib seed
    \<and> account_horizon acc =
        \<lparr>uri = horizon_uri (environment c),
         pool_size = max 1 (length (channel_secret_keys acc)) + 2,
         user_agent = SDK_USER_AGENT lib\<rparr>
    \<and> channel_manager acc =
        \<lparr>base_seed = seed, channel_seeds = channel_secret_keys acc,
         network_name = name (environment c), horizon = account_horizon acc\<rparr>
    \<and> is_valid_secret_key lib seed
    \<and> get_account_data c h (public_address (Keypair lib seed)) = NOT_ACTIVATED"
  using assms
  by (subst (asm) KinAccount_init.simps)
     (auto simp add: call_get_account_data_def Let_def
        split: if_splits prod.splits option.splits sum.splits bool.splits)

lemma constructed_account_example:
  "KinAccount_init example_sdk SDK_SEED (example_client [(SDK_PUBLIC, NOT_ACTIVATED)]) None None False []
     = (Inr example_account, [Get_account_data SDK_PUBLIC])
   \<and> pool_size (account_horizon example_account) = 3
   \<and> channel_seeds (channel_manager example_account) = channel_secret_keys example_account"
proof -
  have built:
    "KinAccount_init example_sdk SDK_SEED (example_client [(SDK_PUBLIC, NOT_ACTIVATED)]) None None False []
       = (Inr example_account, [Get_account_data SDK_PUBLIC])"
    by (subst KinAccount_init.simps)
       (simp add: example_sdk_def example_address_def example_client_def example_account_def
          example_horizon_def call_get_account_data_def SDK_SEED_def SDK_PUBLIC_def Let_def numeral_3_eq_3)
  from constructed_account [OF built] built show ?thesis
    by (simp add: example_account_def example_horizon_def)
qed

text \<open>
  \<^verbatim>\<open>create_channels\<close> hands each channel seed itself to \<^verbatim>\<open>create_account\<close>, which
  takes an address: the constructor returns an account with \<^verbatim>\<open>create_channels\<close> only
  if a channel count was given and every derived seed passes the check of an address.
\<close>

lemma create_channel_accounts_addresses:
  "create_channel_accounts lib base_account keys h = (None, h') \<Longrightarrow> list_all (is_valid_address lib) keys"
  by (induction keys arbitrary: h)
     (auto simp add: create_account_def split: prod.splits sum.splits if_splits)

lemma create_channels_needs_addresses:
  assumes "KinAccount_init lib seed c channels given_keys True h = (Inr acc, h')"
  shows "channels \<noteq> None \<and> given_keys = None
    \<and> list_all (is_valid_address lib) (channel_secret_keys acc)"
  using assms
  by (subst (asm) KinAccount_init.simps)
     (auto simp add: call_get_account_data_def Let_def
        dest: create_channel_accounts_addresses
        split: if_splits prod.splits option.splits sum.splits bool.splits)

lemma derived_keys:
  assumes "KinAccount_init lib seed c (Some n) None create_channels h = (Inr acc, h')"
  shows "channel_secret_keys acc = map (\<lambda>i. generate_hd_seed lib seed (str i)) (py_range n)"
  using assms
  by (subst (asm) KinAccount_init.simps)
     (auto simp add: call_get_account_data_def Let_def
        split: if_splits prod.splits option.splits sum.splits bool.splits)

lemma create_channels_fails_on_seeds:
  assumes "\<not> list_all (is_valid_address lib) (map (\<lambda>i. generate_hd_seed lib seed (str i)) (py_range n))"
  shows "\<exists>e. fst (KinAccount_init lib seed c (Some n) None True h) = Inl e"
proof (cases "KinAccount_init lib seed c (Some n) None True h")
  case (Pair r h')
  show ?thesis
  proof (cases r)
    case (Inl e)
    with Pair show ?thesis
      by simp
  next
    case (Inr acc)
    with Pair have built: "KinAccount_init lib seed c (Some n) None True h = (Inr acc, h')"
      by simp
    from create_channels_needs_addresses [OF built] derived_keys [OF built] assms
    show ?thesis
      by simp
  qed
qed

lemma create_channels_fails_on_seeds_example:
  "\<not> list_all (is_valid_address example_sdk)
       (map (\<lambda>i. generate_hd_seed example_sdk SDK_SEED (str i)) (py_range 3))
   \<and> (\<exists>e. fst (KinAccount_init example_sdk SDK_SEED (example_client [(SDK_PUBLIC, NOT_ACTIVATED)])
                  (Some 3) None True []) = Inl e)"
proof -
  have texts: "map str (py_range 3) = [''0'', ''1'', ''2'']"
    by (simp add: py_range_def upto.simps str_def str_nat.simps digit_char_def)
  have "map (\<lambda>i. generate_hd_seed example_sdk SDK_SEED (str i)) (py_range 3)
      = map (\<lambda>t. SDK_SEED @ CHR ''/'' # t) (map str (py_range 3))"
    by (simp add: example_sdk_def)
  then have "map (\<lambda>i. generate_hd_seed example_sdk SDK_SEED (str i)) (py_range 3)
      = [SDK_SEED @ ''/0'', SDK_SEED @ ''/1'', SDK_SEED @ ''/2'']"
    by (simp add: texts)
  then have seeds: "\<not> list_all (is_valid_address example_sdk)
       (map (\<lambda>i. generate_hd_seed example_sdk SDK_SEED (str i)) (py_range 3))"
    by (simp add: example_sdk_def SDK_SEED_def)
  from create_channels_fails_on_seeds [OF seeds] seeds show ?thesis
    by blast
qed

section \<open>The queries and the transactions of an account\<close>

text \<open>
  Claim C8. \<^verbatim>\<open>get_balances\<close> and \<^verbatim>\<open>get_data\<close> return what the client answers for the
  public address of the base keypair. Each makes that one call to the client and no
  other call, so none to the channel manager, and leaves the account as it was.
\<close>

theorem queries_only_read:
  "get_balances self h =
     (get_account_balances (client self) h (public_address (keypair self)), self,
      h @ [Get_account_balances (public_address (keypair self))])
   \<and> get_data self h =
     (get_account_data (client self) h (public_address (keypair self)), self,
      h @ [Get_account_data (public_address (keypair self))])"
  by (simp add: get_balances_def get_data_def call_get_account_balances_def call_get_account_data_def)

theorem queries_only_read_witness:
  "get_balances example_account [] =
     (Inr [''XLM'' \<mapsto> PyInt 100, ''KIN'' \<mapsto> PyInt 5000], example_account, [Get_account_balances SDK_PUBLIC])
   \<and> get_data example_account [] = (NOT_ACTIVATED, example_account, [Get_account_data SDK_PUBLIC])"
  using queries_only_read [of example_account "[]"]
  by (simp add: example_account_def example_client_def)

lemma send_and_hash_calls:
  "snd (send_and_hash lib self req memo_text h) = h @ [Send_transaction (channel_manager self) req memo_text]"
  by (simp add: send_and_hash_def call_send_transaction_def split: sum.splits option.splits)

text \<open>
  Claim C5, amended. \<^verbatim>\<open>create_account\<close> checks the format of the address and nothing
  else. An ill-formed address raises a \<^verbatim>\<open>ValueError\<close> and no call is made, neither to
  the client nor to the channel manager. With a well-formed address the memo text,
  of whatever length, is handed as it is to \<^verbatim>\<open>send_transaction\<close> of the channel
  manager, which is called once.
\<close>

theorem create_account_checks_address_only:
  "(\<not> is_valid_address lib addr \<longrightarrow>
      create_account lib self addr starting_balance memo_text h =
        (Inl (ValueError (''invalid address: '' @ addr)), h))
   \<and> (is_valid_address lib addr \<longrightarrow>
      snd (create_account lib self addr starting_balance memo_text h) =
        h @ [Send_transaction (channel_manager self)
               (Append_create_account_op addr starting_balance) memo_text])"
  by (simp add: create_account_def send_and_hash_calls)

theorem create_account_checks_address_only_witness:
  "\<not> is_valid_address example_sdk ''bad address''
   \<and> create_account example_sdk example_account ''bad address'' (PyInt 0) None [] =
       (Inl (ValueError ''invalid address: bad address''), [])
   \<and> is_valid_address example_sdk RECIPIENT
   \<and> snd (create_account example_sdk example_account RECIPIENT (PyInt 0) (Some ''Hello'') []) =
       [Send_transaction (channel_manager example_account)
          (Append_create_account_op RECIPIENT (PyInt 0)) (Some ''Hello'')]"
proof -
  have bad: "\<not> is_valid_address example_sdk ''bad address''"
    by (simp add: example_sdk_def example_address_def)
  have good: "is_valid_address example_sdk RECIPIENT"
    by (simp add: example_sdk_def example_address_def RECIPIENT_def)
  from create_account_checks_address_only
         [of example_sdk "''bad address''" example_account "PyInt 0" None "[]"]
       create_account_checks_address_only
         [of example_sdk RECIPIENT example_account "PyInt 0" "Some ''Hello''" "[]"]
       bad good
  show ?thesis
    by simp
qed

text \<open>
  The claim as stated fails for the memo: with a well-formed address and a memo of 50
  characters \<^verbatim>\<open>create_account\<close> raises nothing of its own and calls the channel
  manager with the memo.
\<close>

theorem create_account_counterexample:
  "length (replicate 50 CHR ''a'') = 50
   \<and> create_account example_sdk example_account RECIPIENT (PyInt 0) (Some (replicate 50 CHR ''a'')) [] =
       (Inr ''9f3c'',
        [Send_transaction (channel_manager example_account)
           (Append_create_account_op RECIPIENT (PyInt 0)) (Some (replicate 50 CHR ''a''))])"
  by (simp add: create_account_def send_and_hash_def call_send_transaction_def
        example_sdk_def example_address_def RECIPIENT_def)

lemmas float_defs =
  fl_ratio_def round_ratio_def floor_log2_def rne_div_def fl_round_def bit_length.simps
  ten_million_def py_le_def py_lt_def py_eq_def py_ne_def Let_def

text \<open>
  What \<^verbatim>\<open>_send_asset\<close> checks before it sends: an ill-formed address, an amount that
  is not positive and an amount that fails the test \<^verbatim>\<open>amount * 1e7 % 1 != 0\<close> each
  raise a \<^verbatim>\<open>ValueError\<close> with no call made.
\<close>

lemma send_asset_rejects_before_sending:
  assumes "\<not> is_valid_address lib addr \<or> py_le amount (PyInt 0)
     \<or> (\<exists>scaled. py_mul amount ten_million = Inr scaled \<and> py_ne (py_mod1 scaled) (PyInt 0))"
  shows "\<exists>msg. send_asset lib self asset addr amount memo_text h = (Inl (ValueError msg), h)"
  using assms by (auto simp add: send_asset_def)

lemma send_asset_rejects_before_sending_example:
  "\<not> is_valid_address example_sdk ''bad address''
   \<and> (\<exists>msg. send_asset example_sdk example_account native ''bad address'' (PyInt 10) None []
               = (Inl (ValueError msg), []))
   \<and> py_le (PyInt (- 50)) (PyInt 0)
   \<and> (\<exists>msg. send_asset example_sdk example_account native RECIPIENT (PyInt (- 50)) None []
               = (Inl (ValueError msg), []))"
proof -
  have bad: "\<not> is_valid_address example_sdk ''bad address''"
    by (simp add: example_sdk_def)
  have negative: "py_le (PyInt (- 50)) (PyInt 0)"
    by (simp add: py_le_def py_lt_def)
  from send_asset_rejects_before_sending [of example_sdk "''bad address''" "PyInt 10"]
       send_asset_rejects_before_sending [of example_sdk RECIPIENT "PyInt (- 50)"]
       bad negative
  show ?thesis
    by blast
qed

text \<open>The amount of the test suite, \<^verbatim>\<open>1.1234567898765\<close>, is turned down with no call made.\<close>

lemma send_asset_rejects_thirteen_decimals:
  "send_asset example_sdk example_account native RECIPIENT
     (PyFloat (fl_ratio 11234567898765 10000000000000)) None [] =
   (Inl (ValueError ''Number of digits after the decimal point in the amount exceeded the limit(7).''), [])"
  by (simp add: send_asset_def example_sdk_def RECIPIENT_def float_defs)

text \<open>
  The other direction of the precision test, for the value that a float holds: an
  amount that is a whole multiple of \<open>10 ^ - 7\<close> passes the test, unless the product
  with \<^verbatim>\<open>1e7\<close> leaves the range of a float. The product of such an amount is a whole
  number, and a whole number is rounded to a whole number.
\<close>

lemma rne_div_exact: "d dvd n \<Longrightarrow> 0 < d \<Longrightarrow> rne_div n d = n div d"
  by (auto simp add: rne_div_def Let_def)

lemma round_ratio_whole:
  assumes "0 < q" and "q dvd p" and "round_ratio p q = Some (n, k)"
  shows "fl_whole (Finite n k)"
proof (cases "0 \<le> k")
  case True
  then show ?thesis by simp
next
  case False
  then have shift: "q dvd p * 2 ^ nat (- k)"
    using assms(2) by simp
  from False assms(3) have "n = rne_div (p * 2 ^ nat (- k)) q"
    by (auto simp add: round_ratio_def Let_def split: if_splits)
  with shift assms(1) have "n = p * 2 ^ nat (- k) div q"
    by (simp add: rne_div_exact)
  also have "\<dots> = (p div q) * 2 ^ nat (- k)"
  proof -
    from assms(2) obtain r where "p = q * r" ..
    with assms(1) show ?thesis
      by (simp add: mult.assoc)
  qed
  finally show ?thesis
    by simp
qed

lemma fl_ratio_whole:
  assumes "0 < q" and "q dvd p" and "fl_ratio p q = Finite n k"
  shows "fl_whole (Finite n k)"
proof -
  from assms(3) obtain n' where rounded: "round_ratio \<bar>p\<bar> q = Some (n', k)"
    and n: "n = (if p < 0 then - n' else n')"
    by (auto simp add: fl_ratio_def split: option.splits if_splits)
  from assms(2) have "q dvd \<bar>p\<bar>"
    by simp
  from round_ratio_whole [OF assms(1) this rounded] n show ?thesis
    by (auto simp add: dvd_eq_mod_eq_0 [symmetric])
qed

lemma fl_round_whole:
  assumes "0 \<le> e \<or> 2 ^ nat (- e) dvd m" and "fl_round m e = Finite n k"
  shows "fl_whole (Finite n k)"
proof (cases "0 \<le> e")
  case True
  with assms(2) have "fl_ratio (m * 2 ^ nat e) 1 = Finite n k"
    by (simp add: fl_round_def)
  then show ?thesis
    by (rule fl_ratio_whole [rotated 2]) simp_all
next
  case False
  with assms have "fl_ratio m (2 ^ nat (- e)) = Finite n k" and "2 ^ nat (- e) dvd m"
    by (simp_all add: fl_round_def)
  then show ?thesis
    by (intro fl_ratio_whole [of "2 ^ nat (- e)" m]) simp_all
qed

lemma whole_passes_test: "fl_whole x \<Longrightarrow> \<not> py_ne (py_mod1 (PyFloat x)) (PyInt 0)"
  by (cases x) (auto simp add: py_ne_def py_eq_def dvd_eq_mod_eq_0 [symmetric])

lemma seven_decimals_scaled_whole:
  assumes "seven_decimals amount" and "py_mul amount ten_million = Inr (PyFloat (Finite n k))"
  shows "fl_whole (Finite n k)"
proof (cases amount)
  case (PyInt i)
  with assms(2) obtain m e where conv: "fl_round i 0 = Finite m e"
    and prod: "fl_round (m * 10000000) e = Finite n k"
    by (auto simp add: ten_million_def float_of_int_def split: pyfloat.splits)
  from conv have "fl_whole (Finite m e)"
    by (rule fl_round_whole [rotated]) simp
  then have "0 \<le> e \<or> 2 ^ nat (- e) dvd m * 10000000"
    by (auto simp add: dvd_eq_mod_eq_0 [symmetric])
  from fl_round_whole [OF this prod] show ?thesis .
next
  case (PyFloat x)
  with assms(1) obtain m e where x: "x = Finite m e"
    by (cases x) simp_all
  with PyFloat assms(1) have "0 \<le> e \<or> 2 ^ nat (- e) dvd m * 10000000"
    by (auto simp add: dvd_eq_mod_eq_0 [symmetric] split: if_splits)
  moreover from PyFloat x assms(2) have "fl_round (m * 10000000) e = Finite n k"
    by (simp add: ten_million_def)
  ultimately show ?thesis
    by (rule fl_round_whole)
qed

lemma send_asset_sends_whole_multiples:
  assumes "is_valid_address lib addr" and "\<not> py_le amount (PyInt 0)"
    and "seven_decimals amount"
    and "py_mul amount ten_million = Inr (PyFloat (Finite n k))"
  shows "send_asset lib self asset addr amount memo_text h =
     send_and_hash lib self (Append_payment_op addr amount (code asset) (issuer asset)) memo_text h"
  using assms whole_passes_test [OF seven_decimals_scaled_whole [OF assms(3,4)]]
  by (simp add: send_asset_def)

lemma send_asset_sends_whole_multiples_example:
  "is_valid_address example_sdk RECIPIENT
   \<and> \<not> py_le (PyInt 10) (PyInt 0)
   \<and> seven_decimals (PyInt 10)
   \<and> py_mul (PyInt 10) ten_million = Inr (PyFloat (Finite 6710886400000000 (- 26)))
   \<and> send_asset example_sdk example_account (kin_asset (client example_account)) RECIPIENT (PyInt 10) None [] =
       (Inr ''9f3c'',
        [Send_transaction (channel_manager example_account)
           (Append_payment_op RECIPIENT (PyInt 10) ''KIN''
              (Some ''GA3FLH3EVYHZUHTPQZU63JPX7ECJQL2XZFCMALPCLFYMSYC4JKVLAJWM'')) None])"
proof -
  have valid: "is_valid_address example_sdk RECIPIENT"
    by (simp add: example_sdk_def RECIPIENT_def)
  have positive: "\<not> py_le (PyInt 10) (PyInt 0)"
    by (simp add: py_le_def py_lt_def py_eq_def)
  have scaled: "py_mul (PyInt 10) ten_million = Inr (PyFloat (Finite 6710886400000000 (- 26)))"
    by (simp add: float_of_int_def float_defs)
  have "send_and_hash example_sdk example_account
          (Append_payment_op RECIPIENT (PyInt 10) ''KIN''
             (Some ''GA3FLH3EVYHZUHTPQZU63JPX7ECJQL2XZFCMALPCLFYMSYC4JKVLAJWM'')) None [] =
       (Inr ''9f3c'',
        [Send_transaction (channel_manager example_account)
           (Append_payment_op RECIPIENT (PyInt 10) ''KIN''
              (Some ''GA3FLH3EVYHZUHTPQZU63JPX7ECJQL2XZFCMALPCLFYMSYC4JKVLAJWM'')) None])"
    by (simp add: send_and_hash_def call_send_transaction_def example_sdk_def)
  with send_asset_sends_whole_multiples [OF valid positive _ scaled,
         of example_account "kin_asset (client example_account)" None "[]"]
       valid positive scaled
  show ?thesis
    by (simp add: example_account_def example_client_def)
qed

text \<open>
  Claim C2 at the amount \<^verbatim>\<open>500000000.00000006\<close>. The float of this literal is
  \<open>8388608000000001 * 2 ^ - 24\<close>, which is positive and no multiple of \<open>10 ^ - 7\<close>. Its
  product with \<^verbatim>\<open>1e7\<close> lies above \<open>2 ^ 52\<close>, where every float is a whole number,
  so the test finds no remainder: \<^verbatim>\<open>_send_asset\<close> raises nothing and calls the
  channel manager with the amount.
\<close>

theorem send_asset_sends_eight_decimals:
  "fl_ratio 50000000000000006 100000000 = Finite 8388608000000001 (- 24)
   \<and> \<not> seven_decimals (PyFloat (fl_ratio 50000000000000006 100000000))
   \<and> is_valid_address example_sdk RECIPIENT
   \<and> send_asset example_sdk example_account native RECIPIENT
       (PyFloat (fl_ratio 50000000000000006 100000000)) None [] =
     (Inr ''9f3c'',
      [Send_transaction (channel_manager example_account)
         (Append_payment_op RECIPIENT (PyFloat (Finite 8388608000000001 (- 24))) ''XLM'' None) None])"
proof -
  have literal: "fl_ratio 50000000000000006 100000000 = Finite 8388608000000001 (- 24)"
    by (simp add: float_defs)
  have "send_asset example_sdk example_account native RECIPIENT
       (PyFloat (Finite 8388608000000001 (- 24))) None [] =
     (Inr ''9f3c'',
      [Send_transaction (channel_manager example_account)
         (Append_payment_op RECIPIENT (PyFloat (Finite 8388608000000001 (- 24))) ''XLM'' None) None])"
    by (simp add: send_asset_def send_and_hash_def call_send_transaction_def native_def
          example_sdk_def RECIPIENT_def float_defs)
  moreover have "is_valid_address example_sdk RECIPIENT"
    by (simp add: example_sdk_def RECIPIENT_def)
  ultimately show ?thesis
    using literal by simp
qed

text \<open>
  Claim C3 at the amounts \<^verbatim>\<open>1.13\<close> and \<^verbatim>\<open>1000000000.00000012\<close>. The float of
  \<^verbatim>\<open>1.13\<close> times \<^verbatim>\<open>1e7\<close> is rounded to \<open>11299999.999999998\<close>
  (\<open>6066641305599999 * 2 ^ - 29\<close>), so an amount written with two decimal digits is
  turned down as too precise. The float of the second literal is \<open>10 ^ 9 + 2 ^ - 23\<close>,
  no multiple of \<open>10 ^ - 7\<close>; its product with \<^verbatim>\<open>1e7\<close> is rounded to the whole
  number \<open>10 ^ 16 + 2\<close>, so the amount passes the test and is sent.
\<close>

theorem precision_test_is_not_exact:
  "send_asset example_sdk example_account native RECIPIENT (PyFloat (fl_ratio 113 100)) None [] =
     (Inl (ValueError ''Number of digits after the decimal point in the amount exceeded the limit(7).''), [])
   \<and> py_mul (PyFloat (fl_ratio 113 100)) ten_million = Inr (PyFloat (Finite 6066641305599999 (- 29)))
   \<and> fl_ratio 100000000000000012 100000000 = Finite 8388608000000001 (- 23)
   \<and> \<not> seven_decimals (PyFloat (fl_ratio 100000000000000012 100000000))
   \<and> py_mul (PyFloat (fl_ratio 100000000000000012 100000000)) ten_million
       = Inr (PyFloat (Finite 5000000000000001 1))
   \<and> fst (send_asset example_sdk example_account native RECIPIENT
            (PyFloat (fl_ratio 100000000000000012 100000000)) None []) = Inr ''9f3c''"
proof -
  have small: "fl_ratio 113 100 = Finite 5089067578928660 (- 52)"
    by (simp add: float_defs)
  have small_scaled:
    "py_mul (PyFloat (Finite 5089067578928660 (- 52))) ten_million
       = Inr (PyFloat (Finite 6066641305599999 (- 29)))"
    by (simp add: float_defs)
  have small_sent:
    "send_asset example_sdk example_account native RECIPIENT
       (PyFloat (Finite 5089067578928660 (- 52))) None [] =
     (Inl (ValueError ''Number of digits after the decimal point in the amount exceeded the limit(7).''), [])"
    by (simp add: send_asset_def small_scaled example_sdk_def RECIPIENT_def py_le_def py_lt_def
          py_eq_def py_ne_def Let_def)
  have large: "fl_ratio 100000000000000012 100000000 = Finite 8388608000000001 (- 23)"
    by (simp add: float_defs)
  have large_scaled:
    "py_mul (PyFloat (Finite 8388608000000001 (- 23))) ten_million
       = Inr (PyFloat (Finite 5000000000000001 1))"
    by (simp add: float_defs)
  have large_sent:
    "fst (send_asset example_sdk example_account native RECIPIENT
            (PyFloat (Finite 8388608000000001 (- 23))) None []) = Inr ''9f3c''"
    by (simp add: send_asset_def send_and_hash_def call_send_transaction_def large_scaled
          example_sdk_def RECIPIENT_def py_le_def py_lt_def py_eq_def py_ne_def Let_def)
  from small small_scaled small_sent large large_scaled large_sent show ?thesis
    by simp
qed

section \<open>The builder\<close>



text \<open>
  After \<^verbatim>\<open>next\<close> the sequence is a text that \<^verbatim>\<open>int\<close> reads back, so \<^verbatim>\<open>next\<close> can be called
  again: called twice on a sequence that holds \<open>n\<close>, it leaves the text of \<open>n + 2\<close>.
\<close>

lemma next_can_be_repeated:
  assumes "py_int (sequence self) = Inr n"
  shows "py_int (sequence (snd (builder_next self))) = Inr (n + 1)
    \<and> sequence (snd (builder_next (snd (builder_next self)))) = PyStr (str (n + 2))"
proof -
  from assms have first: "sequence (snd (builder_next self)) = PyStr (str (n + 1))"
    by (simp add: builder_next_def clear_def)
  then have again: "py_int (sequence (snd (builder_next self))) = Inr (n + 1)"
    by (simp add: int_of_text_str)
  then have "sequence (snd (builder_next (snd (builder_next self)))) = PyStr (str (n + 1 + 1))"
    by (simp add: builder_next_def [of "snd (builder_next self)"] clear_def)
  with again show ?thesis
    by (simp add: add.assoc)
qed

lemma next_can_be_repeated_example:
  "py_int (sequence example_builder) = Inr 41
   \<and> py_int (sequence (snd (builder_next example_builder))) = Inr 42
   \<and> sequence (snd (builder_next (snd (builder_next example_builder)))) = PyStr ''43''"
proof -
  have parsed: "py_int (sequence example_builder) = Inr 41"
    by (simp add: example_builder_def int_of_text_def strip_def is_space_def is_digit_def digit_val_def)
  have "str 43 = ''43''"
    by (simp add: str_def str_nat.simps digit_char_def)
  with next_can_be_repeated [OF parsed] parsed show ?thesis
    by simp
qed

end
